theory Spec2Isabelle
  imports Main "HOL-Library.Word"
begin

unbundle bit_operations_syntax

section \<open>Pointers and faults\<close>

text \<open>
  A C pointer is \<open>None\<close> (\<open>NULL\<close>) or \<open>Some a\<close> for an address \<open>a\<close>. Reading through
  \<open>NULL\<close>, or through an address at which nothing is allocated, is undefined behaviour
  in C; the model makes both a fault value, so that they are branches of the functions.
\<close>

type_synonym addr = nat

datatype fault = Null_dereference | Invalid_pointer

section \<open>The guarded destroy of reference-counted datatypes\<close>

text \<open>
  \<open>service_datatype_t\<close> and its base object are declared in headers that are not part of
  the sources at hand; the two fields that \<open>service_datatype_destroy\<close> reads are kept under
  their names: the signed 32-bit \<open>super.obj_reference_count\<close> and the flag word \<open>flags\<close>.
\<close>

record service_object_t =
  obj_reference_count :: "32 word"

record service_datatype_t =
  super :: service_object_t
  flags :: "16 word"

text \<open>
  The memory the function works on: the cells that hold a \<open>service_datatype_t*\<close> (the
  caller's handles) and the allocated datatype objects.
\<close>

record memory =
  handles :: "addr \<rightharpoonup> addr option"
  objects :: "addr \<rightharpoonup> service_datatype_t"

text \<open>
  The two return codes. Their numeric values are in \<open>constants.h\<close>, which is not among
  the sources; only their being different matters here.
\<close>

datatype ccs_status = CCS_SUCCESS | CCS_ERROR

text \<open>
  Modelled from the spec: the macro \<open>OBJ_RELEASE\<close> of the object system, which the
  sources use but do not define. The spec (4.6, 6): the generic release decrements
  \<open>refCount\<close> and frees the object and its resources if \<open>refCount\<close> reaches 0.
\<close>

definition OBJ_RELEASE :: "addr \<Rightarrow> memory \<Rightarrow> fault + memory" where
  "OBJ_RELEASE a m =
     (case objects m a of
        None \<Rightarrow> Inl Invalid_pointer
      | Some d \<Rightarrow>
          (let rc = obj_reference_count (super d) - 1 in
           if rc = 0 then Inr (m\<lparr>objects := (objects m)(a := None)\<rparr>)
           else Inr (m\<lparr>objects := (objects m)
                         (a \<mapsto> d\<lparr>super := (super d)\<lparr>obj_reference_count := rc\<rparr>\<rparr>)\<rparr>)))"

text \<open>
  \<open>service_datatype_destroy\<close>. The flag mask \<open>CCS_DATATYPE_FLAG_PREDEFINED\<close> is defined in a
  header outside the sources, so it is the first argument. \<open>dt\<close> is the
  \<open>service_datatype_t**\<close> argument.
\<close>

definition service_datatype_destroy ::
  "16 word \<Rightarrow> addr option \<Rightarrow> memory \<Rightarrow> fault + (ccs_status \<times> memory)" where
  "service_datatype_destroy CCS_DATATYPE_FLAG_PREDEFINED dt m =
     (case dt of
        None \<Rightarrow> Inl Null_dereference
      | Some h \<Rightarrow>
     (case handles m h of
        None \<Rightarrow> Inl Invalid_pointer
      | Some pData \<Rightarrow>
     (case pData of
        None \<Rightarrow> Inl Null_dereference
      | Some a \<Rightarrow>
     (case objects m a of
        None \<Rightarrow> Inl Invalid_pointer
      | Some d \<Rightarrow>
          if flags d AND CCS_DATATYPE_FLAG_PREDEFINED \<noteq> 0 \<and>
             sint (obj_reference_count (super d)) \<le> 1
          then Inr (CCS_ERROR, m)
          else
            (case OBJ_RELEASE a m of
               Inl f \<Rightarrow> Inl f
             | Inr m' \<Rightarrow> Inr (CCS_SUCCESS, m'\<lparr>handles := (handles m')(h \<mapsto> None)\<rparr>))))))"

text \<open>The spec's view of an object: is it predefined, and its count as an integer.\<close>

definition isPredefined :: "16 word \<Rightarrow> service_datatype_t \<Rightarrow> bool" where
  "isPredefined CCS_DATATYPE_FLAG_PREDEFINED d \<longleftrightarrow>
     flags d AND CCS_DATATYPE_FLAG_PREDEFINED \<noteq> 0"

definition refCount :: "service_datatype_t \<Rightarrow> int" where
  "refCount d = sint (obj_reference_count (super d))"

text \<open>A caller's handle \<open>h\<close> that holds the address \<open>a\<close> of the live object \<open>d\<close>.\<close>

definition handle_to :: "memory \<Rightarrow> addr \<Rightarrow> addr \<Rightarrow> service_datatype_t \<Rightarrow> bool" where
  "handle_to m h a d \<longleftrightarrow> handles m h = Some (Some a) \<and> objects m a = Some d"

section \<open>The thread-mode flag\<close>

text \<open>
  The process-wide variable \<open>ccs_uses_threads\<close>. The states of the later sections extend
  this record, so the flag is the same variable everywhere.
\<close>

record globals =
  ccs_uses_threads :: bool

definition ccs_using_threads :: "'a globals_scheme \<Rightarrow> bool" where
  "ccs_using_threads g = ccs_uses_threads g"

text \<open>
  \<open>ccs_set_using_threads\<close>. The build option \<open>CCS_ENABLE_MULTI_THREADS\<close> selects the
  branch of the \<open>#if\<close>; it is the first argument.
\<close>

definition ccs_set_using_threads ::
  "bool \<Rightarrow> bool \<Rightarrow> 'a globals_scheme \<Rightarrow> bool \<times> 'a globals_scheme" where
  "ccs_set_using_threads CCS_ENABLE_MULTI_THREADS have g =
     (let g' = (if CCS_ENABLE_MULTI_THREADS then g\<lparr>ccs_uses_threads := have\<rparr>
                else g\<lparr>ccs_uses_threads := False\<rparr>)
      in (ccs_uses_threads g', g'))"

section \<open>Lock and unlock in the multithreaded build\<close>

text \<open>
  The platform mutex (\<open>mutex_unix.h\<close>) is not among the sources. Its state is a type
  parameter \<open>'p\<close>, and what the primitives do to it is an argument of the model: a lock
  primitive \<open>addr \<Rightarrow> 'p \<Rightarrow> 'p option\<close>, where \<open>None\<close> means that the caller blocks for
  ever, and an unlock primitive \<open>addr \<Rightarrow> 'p \<Rightarrow> 'p\<close>. Every call of a primitive is
  recorded in \<open>prim_calls\<close>, as a test double would.
\<close>

datatype prim_call = Call_mutex_lock addr | Call_mutex_unlock addr

record 'p mt_state = globals +
  platform :: 'p
  prim_calls :: "prim_call list"

definition service_mutex_lock ::
  "(addr \<Rightarrow> 'p \<Rightarrow> 'p option) \<Rightarrow> addr \<Rightarrow> 'p mt_state \<Rightarrow> 'p mt_state option" where
  "service_mutex_lock lock_prim mutex s =
     (case lock_prim mutex (platform s) of
        None \<Rightarrow> None
      | Some p \<Rightarrow> Some (s\<lparr>platform := p,
                           prim_calls := prim_calls s @ [Call_mutex_lock mutex]\<rparr>))"

definition service_mutex_unlock ::
  "(addr \<Rightarrow> 'p \<Rightarrow> 'p) \<Rightarrow> addr \<Rightarrow> 'p mt_state \<Rightarrow> 'p mt_state" where
  "service_mutex_unlock unlock_prim mutex s =
     s\<lparr>platform := unlock_prim mutex (platform s),
       prim_calls := prim_calls s @ [Call_mutex_unlock mutex]\<rparr>"

text \<open>\<open>CCS_THREAD_LOCK\<close> and \<open>CCS_THREAD_UNLOCK\<close> under \<open>CCS_ENABLE_MULTI_THREADS\<close>.\<close>

definition CCS_THREAD_LOCK_mt ::
  "(addr \<Rightarrow> 'p \<Rightarrow> 'p option) \<Rightarrow> addr \<Rightarrow> 'p mt_state \<Rightarrow> 'p mt_state option" where
  "CCS_THREAD_LOCK_mt lock_prim mutex s =
     (if ccs_using_threads s then service_mutex_lock lock_prim mutex s else Some s)"

definition CCS_THREAD_UNLOCK_mt ::
  "(addr \<Rightarrow> 'p \<Rightarrow> 'p) \<Rightarrow> addr \<Rightarrow> 'p mt_state \<Rightarrow> 'p mt_state" where
  "CCS_THREAD_UNLOCK_mt unlock_prim mutex s =
     (if ccs_using_threads s then service_mutex_unlock unlock_prim mutex s else s)"

text \<open>A caller's sequence of lock and unlock calls, on any mutexes, run in order.\<close>

datatype mutex_call = Lock addr | Unlock addr

fun call_sequence ::
  "(addr \<Rightarrow> 'p \<Rightarrow> 'p option) \<Rightarrow> (addr \<Rightarrow> 'p \<Rightarrow> 'p) \<Rightarrow> mutex_call list \<Rightarrow>
   'p mt_state \<Rightarrow> 'p mt_state option" where
  "call_sequence lock_prim unlock_prim [] s = Some s"
| "call_sequence lock_prim unlock_prim (Lock mutex # cs) s =
     (case CCS_THREAD_LOCK_mt lock_prim mutex s of
        None \<Rightarrow> None
      | Some s' \<Rightarrow> call_sequence lock_prim unlock_prim cs s')"
| "call_sequence lock_prim unlock_prim (Unlock mutex # cs) s =
     call_sequence lock_prim unlock_prim cs (CCS_THREAD_UNLOCK_mt unlock_prim mutex s)"

section \<open>The debug lock tracker\<close>

text \<open>
  Modelled from the spec: the debug fields of \<open>service_mutex_t\<close>, whose declaration
  (\<open>mutex_unix.h\<close>) is not among the sources. The spec (3): the debug sub-record
  \<open>{lockDepth: integer, lastAcquireFile: label, lastAcquireLine: integer}\<close>. They are
  kept under the names the macros use; the two integers are C \<open>int\<close>s, the file is a
  \<open>const char *\<close> that may be \<open>NULL\<close>.
\<close>

record service_mutex_t =
  m_lock_debug :: "32 word"
  m_lock_file :: "string option"
  m_lock_line :: "32 word"

text \<open>
  Modelled from the spec: the log sink \<open>service_output\<close> (\<open>output.h\<close>), fire-and-forget.
  A call appends its stream id, format string and arguments to the state's \<open>sink\<close>.
\<close>

datatype output_arg = Arg_s "string option" | Arg_d "32 word"

type_synonym output_line = "nat \<times> string \<times> output_arg list"

record debug_state = globals +
  service_mutex_check_locks :: bool
  mutexes :: "addr \<Rightarrow> service_mutex_t"
  sink :: "output_line list"

definition service_output ::
  "nat \<Rightarrow> string \<Rightarrow> output_arg list \<Rightarrow> 'a debug_state_scheme \<Rightarrow> 'a debug_state_scheme" where
  "service_output stream fmt args s = s\<lparr>sink := sink s @ [(stream, fmt, args)]\<rparr>"

text \<open>The three assignments through a \<open>service_mutex_t *\<close>.\<close>

definition set_m_lock_debug ::
  "addr \<Rightarrow> 32 word \<Rightarrow> 'a debug_state_scheme \<Rightarrow> 'a debug_state_scheme" where
  "set_m_lock_debug mutex v s =
     s\<lparr>mutexes := (mutexes s)(mutex := (mutexes s mutex)\<lparr>m_lock_debug := v\<rparr>)\<rparr>"

definition set_m_lock_file ::
  "addr \<Rightarrow> string option \<Rightarrow> 'a debug_state_scheme \<Rightarrow> 'a debug_state_scheme" where
  "set_m_lock_file mutex v s =
     s\<lparr>mutexes := (mutexes s)(mutex := (mutexes s mutex)\<lparr>m_lock_file := v\<rparr>)\<rparr>"

definition set_m_lock_line ::
  "addr \<Rightarrow> 32 word \<Rightarrow> 'a debug_state_scheme \<Rightarrow> 'a debug_state_scheme" where
  "set_m_lock_line mutex v s =
     s\<lparr>mutexes := (mutexes s)(mutex := (mutexes s mutex)\<lparr>m_lock_line := v\<rparr>)\<rparr>"

text \<open>
  The macros of the \<open>CCS_ENABLE_DEBUG\<close> branch. \<open>file\<close> and \<open>line\<close> are the \<open>__FILE__\<close>
  and \<open>__LINE__\<close> of the place where the macro is expanded.
\<close>

definition CCS_THREAD_LOCK_debug ::
  "string \<Rightarrow> 32 word \<Rightarrow> addr \<Rightarrow> 'a debug_state_scheme \<Rightarrow> 'a debug_state_scheme" where
  "CCS_THREAD_LOCK_debug file line mutex s =
     (let s1 = set_m_lock_debug mutex (m_lock_debug (mutexes s mutex) + 1) s;
          s2 = (if service_mutex_check_locks s1 \<and> 1 \<noteq> m_lock_debug (mutexes s1 mutex)
                then service_output 0
                       ''Warning -- mutex already locked at %s:%d, now at %s:%d''
                       [Arg_s (m_lock_file (mutexes s1 mutex)),
                        Arg_d (m_lock_line (mutexes s1 mutex)),
                        Arg_s (Some file), Arg_d line] s1
                else s1);
          s3 = set_m_lock_file mutex (Some file) s2
      in set_m_lock_line mutex line s3)"

definition service_thread_debug_trylock ::
  "addr \<Rightarrow> string option \<Rightarrow> 32 word \<Rightarrow> 'a debug_state_scheme \<Rightarrow>
   32 word \<times> 'a debug_state_scheme" where
  "service_thread_debug_trylock mutex file line s =
     (if 0 = m_lock_debug (mutexes s mutex)
      then
        (let s1 = set_m_lock_debug mutex (m_lock_debug (mutexes s mutex) + 1) s;
             s2 = set_m_lock_file mutex file s1;
             s3 = set_m_lock_line mutex line s2
         in (0, s3))
      else
        (if service_mutex_check_locks s
         then (- 1, service_output 0
                 ''Warning -- during trylock, mutex already locked at %s:%d now at %s:%d''
                 [Arg_s file, Arg_d line,
                  Arg_s (m_lock_file (mutexes s mutex)),
                  Arg_d (m_lock_line (mutexes s mutex))] s)
         else (- 1, s)))"

definition CCS_THREAD_TRYLOCK_debug ::
  "string \<Rightarrow> 32 word \<Rightarrow> addr \<Rightarrow> 'a debug_state_scheme \<Rightarrow>
   32 word \<times> 'a debug_state_scheme" where
  "CCS_THREAD_TRYLOCK_debug file line mutex s =
     service_thread_debug_trylock mutex (Some file) line s"

definition CCS_THREAD_UNLOCK_debug ::
  "string \<Rightarrow> 32 word \<Rightarrow> addr \<Rightarrow> 'a debug_state_scheme \<Rightarrow> 'a debug_state_scheme" where
  "CCS_THREAD_UNLOCK_debug file line mutex s =
     (let s1 = set_m_lock_debug mutex (m_lock_debug (mutexes s mutex) - 1) s
      in if service_mutex_check_locks s1 \<and> sint (m_lock_debug (mutexes s1 mutex)) < 0
         then service_output 0 ''Warning -- mutex was double locked from %s:%d''
                [Arg_s (Some file), Arg_d line] s1
         else if service_mutex_check_locks s1 \<and> sint (m_lock_debug (mutexes s1 mutex)) < 0
         then service_output 0 ''Warning -- mutex not locked from %s:%d''
                [Arg_s (Some file), Arg_d line] s1
         else set_m_lock_line mutex 0 (set_m_lock_file mutex None s1))"

text \<open>
  The scoped lock takes the action as a function on the state: it may read and change
  anything, the mutex included.
\<close>

definition CCS_THREAD_SCOPED_LOCK_debug ::
  "string \<Rightarrow> 32 word \<Rightarrow> addr \<Rightarrow> ('a debug_state_scheme \<Rightarrow> 'a debug_state_scheme) \<Rightarrow>
   'a debug_state_scheme \<Rightarrow> 'a debug_state_scheme" where
  "CCS_THREAD_SCOPED_LOCK_debug file line mutex action s =
     (let s1 = (if 0 \<noteq> m_lock_debug (mutexes s mutex)
                then service_output 0
                       ''scoped_lock: Warning -- mutex already locked at %s:%d, now at %s:%d''
                       [Arg_s (Some file), Arg_d line,
                        Arg_s (m_lock_file (mutexes s mutex)),
                        Arg_d (m_lock_line (mutexes s mutex))] s
                else s);
          s2 = set_m_lock_debug mutex (m_lock_debug (mutexes s1 mutex) - 1) s1;
          s3 = action s2
      in set_m_lock_debug mutex (m_lock_debug (mutexes s3 mutex) + 1) s3)"

text \<open>
  An action that looks at the lock depth while it runs: it prints the depth of \<open>mutex\<close>
  to the log.
\<close>

definition print_depth :: "addr \<Rightarrow> 'a debug_state_scheme \<Rightarrow> 'a debug_state_scheme" where
  "print_depth mutex s = service_output 0 ''%d'' [Arg_d (m_lock_debug (mutexes s mutex))] s"

section \<open>The atomic fallback\<close>

text \<open>
  The macros take a pointer to a scalar. The scalars of one type are a store
  \<open>addr \<Rightarrow> 'v\<close>, the pointer is an address in it (a valid pointer: the macros do not
  test it).
\<close>

type_synonym 'v cells = "addr \<Rightarrow> 'v"

text \<open>The C expression \<open>(*x += y)\<close>: it stores the sum and has the stored value.\<close>

definition add_assign :: "addr \<Rightarrow> 'w::len word \<Rightarrow> 'w word cells \<Rightarrow> 'w word \<times> 'w word cells" where
  "add_assign x y mem = (let v = mem x + y in (v, mem(x := v)))"

text \<open>
  Modelled from the spec: the platform's atomic add (\<open>atomic.h\<close>, not among the
  sources), as one caller sees it. The spec (6): \<open>atomicAdd(ptr, delta) -> newValue\<close>;
  (4.5): a true atomic add.
\<close>

definition service_atomic_add ::
  "addr \<Rightarrow> 'w::len word \<Rightarrow> 'w word cells \<Rightarrow> 'w word \<times> 'w word cells" where
  "service_atomic_add x y mem = (mem x + y, \<lambda>a. if a = x then mem x + y else mem a)"

definition service_atomic_add_32 ::
  "addr \<Rightarrow> 32 word \<Rightarrow> 32 word cells \<Rightarrow> 32 word \<times> 32 word cells" where
  "service_atomic_add_32 = service_atomic_add"

definition service_atomic_add_64 ::
  "addr \<Rightarrow> 64 word \<Rightarrow> 64 word cells \<Rightarrow> 64 word \<times> 64 word cells" where
  "service_atomic_add_64 = service_atomic_add"

text \<open>The width of \<open>size_t\<close> depends on the platform; it is the type parameter \<open>'w\<close>.\<close>

definition service_atomic_add_size_t ::
  "addr \<Rightarrow> 'w::len word \<Rightarrow> 'w word cells \<Rightarrow> 'w word \<times> 'w word cells" where
  "service_atomic_add_size_t = service_atomic_add"

text \<open>
  The add macros. The first argument is the build option \<open>CCS_ENABLE_MULTI_THREADS\<close>,
  the second the state that holds the thread-mode flag.
\<close>

definition CCS_THREAD_ADD32 ::
  "bool \<Rightarrow> 'a globals_scheme \<Rightarrow> addr \<Rightarrow> 32 word \<Rightarrow> 32 word cells \<Rightarrow>
   32 word \<times> 32 word cells" where
  "CCS_THREAD_ADD32 CCS_ENABLE_MULTI_THREADS g x y mem =
     (if CCS_ENABLE_MULTI_THREADS
      then (if ccs_using_threads g then service_atomic_add_32 x y mem else add_assign x y mem)
      else add_assign x y mem)"

definition CCS_THREAD_ADD64 ::
  "bool \<Rightarrow> 'a globals_scheme \<Rightarrow> addr \<Rightarrow> 64 word \<Rightarrow> 64 word cells \<Rightarrow>
   64 word \<times> 64 word cells" where
  "CCS_THREAD_ADD64 CCS_ENABLE_MULTI_THREADS g x y mem =
     (if CCS_ENABLE_MULTI_THREADS
      then (if ccs_using_threads g then service_atomic_add_64 x y mem else add_assign x y mem)
      else add_assign x y mem)"

definition CCS_THREAD_ADD_SIZE_T ::
  "bool \<Rightarrow> 'a globals_scheme \<Rightarrow> addr \<Rightarrow> 'w::len word \<Rightarrow> 'w word cells \<Rightarrow>
   'w word \<times> 'w word cells" where
  "CCS_THREAD_ADD_SIZE_T CCS_ENABLE_MULTI_THREADS g x y mem =
     (if CCS_ENABLE_MULTI_THREADS
      then (if ccs_using_threads g then service_atomic_add_size_t x y mem
            else add_assign x y mem)
      else add_assign x y mem)"

subsection \<open>C integer types and their conversions\<close>

text \<open>
  \<open>CCS_CMPSET\<close> is a macro: its arguments keep their own types. The comparison
  \<open>*(x) == (y)\<close> is made after C's usual arithmetic conversions, and the assignment
  \<open>*(x) = (z)\<close> converts \<open>z\<close> to the type of the cell. So the model carries the
  types: a C integer value is its type and its value as a number. \<open>int\<close> has 32 bits,
  as on the platforms of this library.
\<close>

datatype c_int_type = Int8 | UInt8 | Int16 | UInt16 | Int32 | UInt32 | Int64 | UInt64

fun width_of :: "c_int_type \<Rightarrow> nat" where
  "width_of Int8 = 8"
| "width_of UInt8 = 8"
| "width_of Int16 = 16"
| "width_of UInt16 = 16"
| "width_of Int32 = 32"
| "width_of UInt32 = 32"
| "width_of Int64 = 64"
| "width_of UInt64 = 64"

fun is_signed :: "c_int_type \<Rightarrow> bool" where
  "is_signed Int8 = True"
| "is_signed UInt8 = False"
| "is_signed Int16 = True"
| "is_signed UInt16 = False"
| "is_signed Int32 = True"
| "is_signed UInt32 = False"
| "is_signed Int64 = True"
| "is_signed UInt64 = False"

fun unsigned_of :: "c_int_type \<Rightarrow> c_int_type" where
  "unsigned_of Int8 = UInt8"
| "unsigned_of Int16 = UInt16"
| "unsigned_of Int32 = UInt32"
| "unsigned_of Int64 = UInt64"
| "unsigned_of t = t"

type_synonym c_value = "c_int_type \<times> int"

text \<open>The numbers that a type holds.\<close>

definition representable :: "c_int_type \<Rightarrow> int \<Rightarrow> bool" where
  "representable t v \<longleftrightarrow>
     (if is_signed t then - (2 ^ (width_of t - 1)) \<le> v \<and> v < 2 ^ (width_of t - 1)
      else 0 \<le> v \<and> v < 2 ^ width_of t)"

text \<open>
  Conversion of a number to a type: modulo \<open>2 ^ width\<close>, into the range of the type
  (for a signed type this is what the compilers of the library's platforms do with a
  value out of range).
\<close>

definition c_convert :: "c_int_type \<Rightarrow> int \<Rightarrow> int" where
  "c_convert t v =
     (if is_signed t
      then (v + 2 ^ (width_of t - 1)) mod 2 ^ width_of t - 2 ^ (width_of t - 1)
      else v mod 2 ^ width_of t)"

text \<open>The integer promotions: a type narrower than \<open>int\<close> becomes \<open>int\<close>.\<close>

definition integer_promotion :: "c_int_type \<Rightarrow> c_int_type" where
  "integer_promotion t = (if width_of t < 32 then Int32 else t)"

text \<open>
  The usual arithmetic conversions give the type in which two operands are compared:
  after promotion, the wider type; at equal width the signed type only if both are
  signed, the unsigned one otherwise.
\<close>

definition usual_arithmetic_conversion :: "c_int_type \<Rightarrow> c_int_type \<Rightarrow> c_int_type" where
  "usual_arithmetic_conversion t1 t2 =
     (let a = integer_promotion t1; b = integer_promotion t2 in
      if width_of a = width_of b
      then (if is_signed a \<and> is_signed b then a else unsigned_of a)
      else if width_of a < width_of b then b else a)"

text \<open>The C expression \<open>a == b\<close> on integers.\<close>

definition c_equal :: "c_value \<Rightarrow> c_value \<Rightarrow> bool" where
  "c_equal a b =
     (let c = usual_arithmetic_conversion (fst a) (fst b) in
      c_convert c (snd a) = c_convert c (snd b))"

subsection \<open>The compare-and-set macro\<close>

text \<open>
  \<open>CCS_CMPSET(x, y, z)\<close>, the compare-and-set without synchronisation, on a cell of
  the integer type \<open>t\<close> (the type of \<open>*x\<close>); the store holds the cell's value as a
  number. \<open>y\<close> and \<open>z\<close> are C integer values of any type. Its value is the C \<open>int\<close> 1
  or 0.
\<close>

definition CCS_CMPSET ::
  "c_int_type \<Rightarrow> addr \<Rightarrow> c_value \<Rightarrow> c_value \<Rightarrow> int cells \<Rightarrow> 32 word \<times> int cells" where
  "CCS_CMPSET t x y z mem =
     (if c_equal (t, mem x) y then (1, mem(x := c_convert t (snd z))) else (0, mem))"

section \<open>Concrete inputs\<close>

text \<open>The small states at which the theorems below are evaluated.\<close>

definition datatype_object :: "32 word \<Rightarrow> 16 word \<Rightarrow> service_datatype_t" where
  "datatype_object rc fl = \<lparr>super = \<lparr>obj_reference_count = rc\<rparr>, flags = fl\<rparr>"

definition one_handle_memory :: "addr option \<Rightarrow> service_datatype_t \<Rightarrow> memory" where
  "one_handle_memory pData d = \<lparr>handles = [10 \<mapsto> pData], objects = [20 \<mapsto> d]\<rparr>"

definition unlocked_mutex :: service_mutex_t where
  "unlocked_mutex = \<lparr>m_lock_debug = 0, m_lock_file = None, m_lock_line = 0\<rparr>"

definition initial_debug_state :: "bool \<Rightarrow> debug_state" where
  "initial_debug_state check =
     \<lparr>ccs_uses_threads = False, service_mutex_check_locks = check,
      mutexes = (\<lambda>mutex. unlocked_mutex), sink = []\<rparr>"

definition initial_mt_state :: "bool \<Rightarrow> nat mt_state" where
  "initial_mt_state threads = \<lparr>ccs_uses_threads = threads, platform = 0, prim_calls = []\<rparr>"

definition never_acquires :: "addr \<Rightarrow> nat \<Rightarrow> nat option" where
  "never_acquires mutex p = None"

definition counts_unlocks :: "addr \<Rightarrow> nat \<Rightarrow> nat" where
  "counts_unlocks mutex p = p + 1"

definition zero_cells :: "'w::len word cells" where
  "zero_cells = (\<lambda>a. 0)"

definition zero_int_cells :: "int cells" where
  "zero_int_cells = (\<lambda>a. 0)"

section \<open>Properties of the guarded destroy\<close>

lemma destroy_live:
  assumes "handle_to m h a d"
  shows "service_datatype_destroy P (Some h) m =
     (if isPredefined P d \<and> refCount d \<le> 1 then Inr (CCS_ERROR, m)
      else if obj_reference_count (super d) = 1
      then Inr (CCS_SUCCESS, m\<lparr>objects := (objects m)(a := None),
                               handles := (handles m)(h \<mapsto> None)\<rparr>)
      else Inr (CCS_SUCCESS,
             m\<lparr>objects := (objects m)
                  (a \<mapsto> d\<lparr>super := (super d)\<lparr>obj_reference_count :=
                                obj_reference_count (super d) - 1\<rparr>\<rparr>),
               handles := (handles m)(h \<mapsto> None)\<rparr>))"
  using assms
  by (simp add: service_datatype_destroy_def OBJ_RELEASE_def handle_to_def isPredefined_def
      refCount_def Let_def)

lemma sint_dec: "- (2 ^ 31) < sint (x :: 32 word) \<Longrightarrow> sint (x - 1) = sint x - 1"
  using sint_lt [of x] by (simp add: sint_word_ariths signed_take_bit_int_eq_self_iff)

lemma sint_eq_1: "sint (x :: 32 word) = 1 \<longleftrightarrow> x = 1"
  using word_eq_iff_signed by fastforce

lemmas example_memory_defs = one_handle_memory_def datatype_object_def handle_to_def
  isPredefined_def refCount_def

text \<open>
  Claim C1. For every object that is predefined and whose reference count is at most 1,
  destroy returns \<open>CCS_ERROR\<close> and the whole memory is as before: the object keeps its
  count, and the caller's handle still holds the address of the same live object.
\<close>

theorem destroy_predefined_at_floor:
  assumes "handle_to m h a d" and "isPredefined P d" and "refCount d \<le> 1"
  shows "service_datatype_destroy P (Some h) m = Inr (CCS_ERROR, m)"
  using assms by (simp add: destroy_live)

theorem destroy_predefined_at_floor_witness:
  "handle_to (one_handle_memory (Some 20) (datatype_object 1 2)) 10 20 (datatype_object 1 2)
   \<and> isPredefined 2 (datatype_object 1 2)
   \<and> refCount (datatype_object 1 2) \<le> 1
   \<and> service_datatype_destroy 2 (Some 10) (one_handle_memory (Some 20) (datatype_object 1 2))
       = Inr (CCS_ERROR, one_handle_memory (Some 20) (datatype_object 1 2))"
  using destroy_predefined_at_floor
    [of "one_handle_memory (Some 20) (datatype_object 1 2)" 10 20 "datatype_object 1 2" 2]
  by (simp add: example_memory_defs)

text \<open>
  Claim C2. For every other live object (not predefined, whatever its count, or
  predefined with a count above 1) destroy runs the release once: the objects are those
  that \<open>OBJ_RELEASE\<close> leaves, where the count of the object is one less and the object is
  freed exactly when the new count is 0 (the old one is 1); the caller's handle is set to
  \<open>NULL\<close> and the result is \<open>CCS_SUCCESS\<close>. The decrement is that of a 32-bit integer:
  read as a signed number the count goes down by 1 unless it was the least one.
\<close>

theorem destroy_releases_once:
  assumes "handle_to m h a d" and "\<not> (isPredefined P d \<and> refCount d \<le> 1)"
  shows "\<exists>m1. OBJ_RELEASE a m = Inr m1
     \<and> service_datatype_destroy P (Some h) m =
         Inr (CCS_SUCCESS, m1\<lparr>handles := (handles m)(h \<mapsto> None)\<rparr>)
     \<and> handles m1 = handles m
     \<and> objects m1 = (objects m)(a :=
          if obj_reference_count (super d) - 1 = 0 then None
          else Some (d\<lparr>super := (super d)\<lparr>obj_reference_count :=
                         obj_reference_count (super d) - 1\<rparr>\<rparr>))
     \<and> (refCount d = 1 \<longleftrightarrow> objects m1 a = None)
     \<and> (\<forall>d'. objects m1 a = Some d' \<and> - (2 ^ 31) < refCount d \<longrightarrow>
            refCount d' = refCount d - 1 \<and> flags d' = flags d)"
proof -
  have live: "objects m a = Some d"
    using assms(1) by (simp add: handle_to_def)
  show ?thesis
    using assms live
    by (auto simp: destroy_live OBJ_RELEASE_def Let_def refCount_def sint_dec sint_eq_1)
qed

theorem destroy_releases_once_witness:
  "handle_to (one_handle_memory (Some 20) (datatype_object 2 2)) 10 20 (datatype_object 2 2)
   \<and> \<not> (isPredefined 2 (datatype_object 2 2) \<and> refCount (datatype_object 2 2) \<le> 1)
   \<and> service_datatype_destroy 2 (Some 10) (one_handle_memory (Some 20) (datatype_object 2 2))
       = Inr (CCS_SUCCESS, one_handle_memory None (datatype_object 1 2))"
  using destroy_releases_once
    [of "one_handle_memory (Some 20) (datatype_object 2 2)" 10 20 "datatype_object 2 2" 2]
  by (auto simp: example_memory_defs OBJ_RELEASE_def)

text \<open>
  The third scenario of the spec: an object that is not predefined, with count 1, is
  freed, and the handle is \<open>NULL\<close>.
\<close>

lemma destroy_frees_last_reference:
  "service_datatype_destroy 2 (Some 10) (one_handle_memory (Some 20) (datatype_object 1 0))
     = Inr (CCS_SUCCESS, \<lparr>handles = [10 \<mapsto> None], objects = Map.empty\<rparr>)"
  by (simp add: service_datatype_destroy_def OBJ_RELEASE_def example_memory_defs)

text \<open>
  Claim C10. destroy reads through \<open>dt\<close> and through the pointer it finds there before
  it tests anything: it ends in a null dereference exactly when \<open>dt\<close> is \<open>NULL\<close> or the
  handle holds \<open>NULL\<close>, whatever the rest of the memory is. It returns a status, on
  either branch, exactly when \<open>dt\<close> is the address of a handle that holds the address of
  a live object.
\<close>

theorem destroy_needs_nonnull_handle_and_object:
  "(service_datatype_destroy P dt m = Inl Null_dereference \<longleftrightarrow>
      dt = None \<or> (\<exists>h. dt = Some h \<and> handles m h = Some None))
   \<and> ((\<exists>r. service_datatype_destroy P dt m = Inr r) \<longleftrightarrow>
      (\<exists>h a d. dt = Some h \<and> handle_to m h a d))"
  by (auto simp: service_datatype_destroy_def OBJ_RELEASE_def handle_to_def Let_def
      split: option.splits sum.splits if_splits)

theorem destroy_needs_nonnull_handle_and_object_witness:
  "service_datatype_destroy 2 None (one_handle_memory (Some 20) (datatype_object 1 2))
     = Inl Null_dereference
   \<and> service_datatype_destroy 2 (Some 10) (one_handle_memory None (datatype_object 1 2))
     = Inl Null_dereference
   \<and> service_datatype_destroy 2 (Some 10) (one_handle_memory (Some 20) (datatype_object 1 2))
     \<noteq> Inl Null_dereference"
  using destroy_needs_nonnull_handle_and_object
      [of 2 None "one_handle_memory (Some 20) (datatype_object 1 2)"]
    destroy_needs_nonnull_handle_and_object
      [of 2 "Some 10" "one_handle_memory None (datatype_object 1 2)"]
    destroy_needs_nonnull_handle_and_object
      [of 2 "Some 10" "one_handle_memory (Some 20) (datatype_object 1 2)"]
  by (simp add: one_handle_memory_def)

section \<open>Properties of the thread-mode flag\<close>

text \<open>
  Claim C7. \<open>ccs_set_using_threads\<close> stores the requested value in the flag when the
  build has thread support and stores false when it has none; it returns the stored
  value, which is what \<open>ccs_using_threads\<close> gives afterwards.
\<close>

theorem set_using_threads_result:
  "ccs_set_using_threads mt have g =
     (mt \<and> have, g\<lparr>ccs_uses_threads := mt \<and> have\<rparr>)
   \<and> ccs_set_using_threads True have g = (have, g\<lparr>ccs_uses_threads := have\<rparr>)
   \<and> ccs_set_using_threads False have g = (False, g\<lparr>ccs_uses_threads := False\<rparr>)
   \<and> ccs_using_threads (snd (ccs_set_using_threads mt have g)) =
       fst (ccs_set_using_threads mt have g)"
  by (simp add: ccs_set_using_threads_def ccs_using_threads_def Let_def)

theorem set_using_threads_result_witness:
  "ccs_set_using_threads True True \<lparr>ccs_uses_threads = False\<rparr> =
     (True, \<lparr>ccs_uses_threads = True\<rparr>)
   \<and> ccs_set_using_threads False True \<lparr>ccs_uses_threads = True\<rparr> =
     (False, \<lparr>ccs_uses_threads = False\<rparr>)"
  using set_using_threads_result [of True True "\<lparr>ccs_uses_threads = False\<rparr>"]
    set_using_threads_result [of False True "\<lparr>ccs_uses_threads = True\<rparr>"]
  by simp

section \<open>Properties of lock and unlock in the multithreaded build\<close>

lemma lock_mt_elided:
  "\<not> ccs_using_threads s \<Longrightarrow> CCS_THREAD_LOCK_mt lock_prim mutex s = Some s"
  by (simp add: CCS_THREAD_LOCK_mt_def)

lemma unlock_mt_elided:
  "\<not> ccs_using_threads s \<Longrightarrow> CCS_THREAD_UNLOCK_mt unlock_prim mutex s = s"
  by (simp add: CCS_THREAD_UNLOCK_mt_def)

text \<open>With the flag set the primitives are called, and the calls are recorded.\<close>

lemma lock_mt_recorded:
  "ccs_using_threads s \<Longrightarrow> lock_prim mutex (platform s) = Some p \<Longrightarrow>
   CCS_THREAD_LOCK_mt lock_prim mutex s =
     Some (s\<lparr>platform := p, prim_calls := prim_calls s @ [Call_mutex_lock mutex]\<rparr>)"
  by (simp add: CCS_THREAD_LOCK_mt_def service_mutex_lock_def)

lemma unlock_mt_recorded:
  "ccs_using_threads s \<Longrightarrow>
   CCS_THREAD_UNLOCK_mt unlock_prim mutex s =
     s\<lparr>platform := unlock_prim mutex (platform s),
       prim_calls := prim_calls s @ [Call_mutex_unlock mutex]\<rparr>"
  by (simp add: CCS_THREAD_UNLOCK_mt_def service_mutex_unlock_def)

text \<open>
  Claim C8. In the multithreaded build, while \<open>ccs_using_threads\<close> is false, every
  sequence of lock and unlock calls, on any mutexes and with any platform primitives,
  returns and leaves the state as it was: no call of a primitive is recorded and the
  platform's mutex state is untouched.
\<close>

theorem single_threaded_never_calls_platform:
  assumes "\<not> ccs_using_threads s"
  shows "call_sequence lock_prim unlock_prim cs s = Some s"
  using assms
proof (induction cs)
  case Nil
  show ?case by simp
next
  case (Cons c cs)
  then show ?case
    by (cases c) (simp_all add: lock_mt_elided unlock_mt_elided)
qed

theorem single_threaded_never_calls_platform_witness:
  "\<not> ccs_using_threads (initial_mt_state False)
   \<and> call_sequence never_acquires counts_unlocks [Lock 1, Lock 1, Unlock 2, Unlock 1]
        (initial_mt_state False) = Some (initial_mt_state False)"
  using single_threaded_never_calls_platform [of "initial_mt_state False"
      never_acquires counts_unlocks "[Lock 1, Lock 1, Unlock 2, Unlock 1]"]
  by (simp add: ccs_using_threads_def initial_mt_state_def)

section \<open>Properties of the debug lock tracker\<close>

lemmas debug_defs = set_m_lock_debug_def set_m_lock_file_def set_m_lock_line_def
  service_output_def

lemma mutex_all_fields:
  "mx\<lparr>m_lock_debug := d, m_lock_file := f, m_lock_line := l\<rparr> =
     \<lparr>m_lock_debug = d, m_lock_file = f, m_lock_line = l\<rparr>"
  by (cases mx) simp

lemma debug_trylock_effect:
  "service_thread_debug_trylock mutex file line s =
     (if m_lock_debug (mutexes s mutex) = 0
      then (0, s\<lparr>mutexes := (mutexes s)
                   (mutex := \<lparr>m_lock_debug = 1, m_lock_file = file, m_lock_line = line\<rparr>)\<rparr>)
      else (- 1,
            if service_mutex_check_locks s
            then s\<lparr>sink := sink s @
                   [(0, ''Warning -- during trylock, mutex already locked at %s:%d now at %s:%d'',
                     [Arg_s file, Arg_d line, Arg_s (m_lock_file (mutexes s mutex)),
                      Arg_d (m_lock_line (mutexes s mutex))])]\<rparr>
            else s))"
  by (simp add: service_thread_debug_trylock_def debug_defs Let_def mutex_all_fields)

text \<open>
  Claim C6. The debug trylock returns 0 exactly when the depth was 0, and then the depth
  is 1 and the caller's file and line are the recorded site. Otherwise it returns -1 and
  leaves the mutex as it was; it prints one warning if lock checking is on and changes
  nothing at all if it is off. The macro passes its own file and line.
\<close>

theorem debug_trylock_succeeds_iff_unlocked:
  "(fst (service_thread_debug_trylock mutex file line s) = 0 \<longleftrightarrow>
      m_lock_debug (mutexes s mutex) = 0)
   \<and> (fst (service_thread_debug_trylock mutex file line s) = - 1 \<longleftrightarrow>
      m_lock_debug (mutexes s mutex) \<noteq> 0)
   \<and> (m_lock_debug (mutexes s mutex) = 0 \<longrightarrow>
        snd (service_thread_debug_trylock mutex file line s) =
          s\<lparr>mutexes := (mutexes s)
               (mutex := \<lparr>m_lock_debug = 1, m_lock_file = file, m_lock_line = line\<rparr>)\<rparr>)
   \<and> (m_lock_debug (mutexes s mutex) \<noteq> 0 \<and> service_mutex_check_locks s \<longrightarrow>
        (\<exists>w. snd (service_thread_debug_trylock mutex file line s) =
               s\<lparr>sink := sink s @ [w]\<rparr>))
   \<and> (m_lock_debug (mutexes s mutex) \<noteq> 0 \<and> \<not> service_mutex_check_locks s \<longrightarrow>
        snd (service_thread_debug_trylock mutex file line s) = s)
   \<and> CCS_THREAD_TRYLOCK_debug fname line mutex s =
        service_thread_debug_trylock mutex (Some fname) line s"
  by (auto simp add: debug_trylock_effect CCS_THREAD_TRYLOCK_debug_def)

theorem debug_trylock_succeeds_iff_unlocked_witness:
  "m_lock_debug (mutexes (initial_debug_state True) 0) = 0
   \<and> CCS_THREAD_TRYLOCK_debug ''a.c'' 7 0 (initial_debug_state True) =
       (0, (initial_debug_state True)\<lparr>mutexes := (mutexes (initial_debug_state True))
          (0 := \<lparr>m_lock_debug = 1, m_lock_file = Some ''a.c'', m_lock_line = 7\<rparr>)\<rparr>)
   \<and> m_lock_debug (mutexes (snd (CCS_THREAD_TRYLOCK_debug ''a.c'' 7 0
         (initial_debug_state True))) 0) \<noteq> 0
   \<and> service_mutex_check_locks (snd (CCS_THREAD_TRYLOCK_debug ''a.c'' 7 0
         (initial_debug_state True)))
   \<and> fst (CCS_THREAD_TRYLOCK_debug ''b.c'' 9 0
         (snd (CCS_THREAD_TRYLOCK_debug ''a.c'' 7 0 (initial_debug_state True)))) = - 1
   \<and> length (sink (snd (CCS_THREAD_TRYLOCK_debug ''b.c'' 9 0
         (snd (CCS_THREAD_TRYLOCK_debug ''a.c'' 7 0 (initial_debug_state True)))))) = 1
   \<and> \<not> service_mutex_check_locks (snd (CCS_THREAD_TRYLOCK_debug ''a.c'' 7 0
         (initial_debug_state False)))
   \<and> CCS_THREAD_TRYLOCK_debug ''b.c'' 9 0
         (snd (CCS_THREAD_TRYLOCK_debug ''a.c'' 7 0 (initial_debug_state False))) =
       (- 1, snd (CCS_THREAD_TRYLOCK_debug ''a.c'' 7 0 (initial_debug_state False)))"
  using debug_trylock_succeeds_iff_unlocked
      [of 0 "Some ''a.c''" 7 "initial_debug_state True" "''a.c''"]
    debug_trylock_succeeds_iff_unlocked
      [of 0 "Some ''b.c''" 9
         "snd (CCS_THREAD_TRYLOCK_debug ''a.c'' 7 0 (initial_debug_state True))" "''b.c''"]
    debug_trylock_succeeds_iff_unlocked
      [of 0 "Some ''b.c''" 9
         "snd (CCS_THREAD_TRYLOCK_debug ''a.c'' 7 0 (initial_debug_state False))" "''b.c''"]
  by (simp add: initial_debug_state_def unlocked_mutex_def debug_trylock_effect
      CCS_THREAD_TRYLOCK_debug_def)

lemma debug_unlock_effect:
  "CCS_THREAD_UNLOCK_debug file line mutex s =
     (if service_mutex_check_locks s \<and> sint (m_lock_debug (mutexes s mutex) - 1) < 0
      then s\<lparr>mutexes := (mutexes s)
                (mutex := (mutexes s mutex)
                   \<lparr>m_lock_debug := m_lock_debug (mutexes s mutex) - 1\<rparr>),
             sink := sink s @ [(0, ''Warning -- mutex was double locked from %s:%d'',
                                 [Arg_s (Some file), Arg_d line])]\<rparr>
      else s\<lparr>mutexes := (mutexes s)
                (mutex := \<lparr>m_lock_debug = m_lock_debug (mutexes s mutex) - 1,
                           m_lock_file = None, m_lock_line = 0\<rparr>)\<rparr>)"
  by (simp add: CCS_THREAD_UNLOCK_debug_def debug_defs Let_def mutex_all_fields)

text \<open>
  Claim C4, as stated, fails: with lock checking off, an unlock of a mutex of depth 0
  leaves the depth negative and prints nothing.
\<close>

theorem debug_unlock_silent_counterexample:
  "sint (m_lock_debug (mutexes
       (CCS_THREAD_UNLOCK_debug ''a.c'' 7 0 (initial_debug_state False)) 0)) < 0
   \<and> sink (CCS_THREAD_UNLOCK_debug ''a.c'' 7 0 (initial_debug_state False)) =
       sink (initial_debug_state False)"
  by (simp add: debug_unlock_effect initial_debug_state_def unlocked_mutex_def)

text \<open>
  Claim C4, amended. The debug unlock decrements the depth. If lock checking is on and
  the new depth is negative, it prints one warning, which names the place of the unlock,
  and leaves the recorded file and line as they were. In every other case (the new depth
  is not negative, or lock checking is off) it prints nothing and clears the recorded
  file and line. It always returns, and changes nothing else.
\<close>

theorem debug_unlock_warns_when_checking:
  "m_lock_debug (mutexes (CCS_THREAD_UNLOCK_debug file line mutex s) mutex) =
     m_lock_debug (mutexes s mutex) - 1
   \<and> (service_mutex_check_locks s \<and> sint (m_lock_debug (mutexes s mutex) - 1) < 0 \<longrightarrow>
        (\<exists>fmt. sink (CCS_THREAD_UNLOCK_debug file line mutex s) =
           sink s @ [(0, fmt, [Arg_s (Some file), Arg_d line])])
        \<and> m_lock_file (mutexes (CCS_THREAD_UNLOCK_debug file line mutex s) mutex) =
            m_lock_file (mutexes s mutex)
        \<and> m_lock_line (mutexes (CCS_THREAD_UNLOCK_debug file line mutex s) mutex) =
            m_lock_line (mutexes s mutex))
   \<and> (\<not> (service_mutex_check_locks s \<and> sint (m_lock_debug (mutexes s mutex) - 1) < 0) \<longrightarrow>
        sink (CCS_THREAD_UNLOCK_debug file line mutex s) = sink s
        \<and> m_lock_file (mutexes (CCS_THREAD_UNLOCK_debug file line mutex s) mutex) = None
        \<and> m_lock_line (mutexes (CCS_THREAD_UNLOCK_debug file line mutex s) mutex) = 0)
   \<and> (\<forall>other. other \<noteq> mutex \<longrightarrow>
        mutexes (CCS_THREAD_UNLOCK_debug file line mutex s) other = mutexes s other)
   \<and> service_mutex_check_locks (CCS_THREAD_UNLOCK_debug file line mutex s) =
       service_mutex_check_locks s
   \<and> ccs_uses_threads (CCS_THREAD_UNLOCK_debug file line mutex s) = ccs_uses_threads s"
  by (simp add: debug_unlock_effect)

theorem debug_unlock_warns_when_checking_witness:
  "(service_mutex_check_locks (initial_debug_state True)
      \<and> sint (m_lock_debug (mutexes (initial_debug_state True) 0) - 1) < 0)
   \<and> length (sink (CCS_THREAD_UNLOCK_debug ''a.c'' 7 0 (initial_debug_state True))) = 1
   \<and> \<not> (service_mutex_check_locks (initial_debug_state False)
      \<and> sint (m_lock_debug (mutexes (initial_debug_state False) 0) - 1) < 0)
   \<and> sink (CCS_THREAD_UNLOCK_debug ''a.c'' 7 0 (initial_debug_state False)) = []
   \<and> (1::nat) \<noteq> 0
   \<and> mutexes (CCS_THREAD_UNLOCK_debug ''a.c'' 7 0 (initial_debug_state True)) 1 =
       unlocked_mutex"
  using debug_unlock_warns_when_checking [of "''a.c''" 7 0 "initial_debug_state True"]
    debug_unlock_warns_when_checking [of "''a.c''" 7 0 "initial_debug_state False"]
  by (auto simp add: initial_debug_state_def unlocked_mutex_def)

text \<open>
  What the debug lock and the debug scoped lock do to the depth, at any state: the lock
  leaves the depth one higher; the scoped lock runs its action at a depth one lower.
\<close>

lemma lock_debug_depth:
  "m_lock_debug (mutexes (CCS_THREAD_LOCK_debug file line mutex s) mutex) =
     m_lock_debug (mutexes s mutex) + 1"
  by (simp add: CCS_THREAD_LOCK_debug_def debug_defs Let_def)

lemma scoped_lock_debug_runs_action_one_lower:
  "CCS_THREAD_SCOPED_LOCK_debug file line mutex action s =
     set_m_lock_debug mutex (m_lock_debug (mutexes (action s2) mutex) + 1) (action s2)
   \<and> m_lock_debug (mutexes s2 mutex) = m_lock_debug (mutexes s mutex) - 1"
  if "s2 = set_m_lock_debug mutex (m_lock_debug (mutexes s mutex) - 1)
        (if 0 \<noteq> m_lock_debug (mutexes s mutex)
         then service_output 0
           ''scoped_lock: Warning -- mutex already locked at %s:%d, now at %s:%d''
           [Arg_s (Some file), Arg_d line, Arg_s (m_lock_file (mutexes s mutex)),
            Arg_d (m_lock_line (mutexes s mutex))] s
         else s)"
  using that by (simp add: CCS_THREAD_SCOPED_LOCK_debug_def debug_defs Let_def)

lemma scoped_lock_debug_observed_depth:
  "sink (CCS_THREAD_SCOPED_LOCK_debug file line mutex (print_depth mutex) s) =
     (if m_lock_debug (mutexes s mutex) \<noteq> 0
      then sink s @
        [(0, ''scoped_lock: Warning -- mutex already locked at %s:%d, now at %s:%d'',
          [Arg_s (Some file), Arg_d line, Arg_s (m_lock_file (mutexes s mutex)),
           Arg_d (m_lock_line (mutexes s mutex))])]
      else sink s)
     @ [(0, ''%d'', [Arg_d (m_lock_debug (mutexes s mutex) - 1)])]"
  by (simp add: CCS_THREAD_SCOPED_LOCK_debug_def print_depth_def debug_defs Let_def)

text \<open>
  Claim C5 at a mutex of depth 0. An action that prints the depth, run by the debug
  scoped lock, prints -1, where the claim says 1; after the debug lock of the same build
  the same action prints 1. After the scoped lock the depth is 0 again.
\<close>

theorem scoped_lock_debug_depth_at_zero:
  "sink (CCS_THREAD_SCOPED_LOCK_debug ''a.c'' 7 0 (print_depth 0) (initial_debug_state True))
     = [(0, ''%d'', [Arg_d (- 1)])]
   \<and> sink (print_depth 0 (CCS_THREAD_LOCK_debug ''a.c'' 7 0 (initial_debug_state True)))
     = [(0, ''%d'', [Arg_d 1])]
   \<and> m_lock_debug (mutexes (CCS_THREAD_SCOPED_LOCK_debug ''a.c'' 7 0 (print_depth 0)
        (initial_debug_state True)) 0) = 0"
  by (simp add: CCS_THREAD_SCOPED_LOCK_debug_def CCS_THREAD_LOCK_debug_def print_depth_def
      debug_defs Let_def initial_debug_state_def unlocked_mutex_def)

section \<open>Properties of the atomic fallback\<close>

lemmas c_int_defs = representable_def c_convert_def integer_promotion_def
  usual_arithmetic_conversion_def










text \<open>
  A new value that the cell's type does not hold is stored converted: a 64-bit
  4294967303 goes into a signed 32-bit cell as 7.
\<close>

lemma cmpset_stores_converted:
  "CCS_CMPSET Int32 3 (Int32, 0) (Int64, 4294967303) zero_int_cells =
     (1, zero_int_cells(3 := 7))"
  by (simp add: CCS_CMPSET_def c_equal_def c_int_defs Let_def zero_int_cells_def)

text \<open>
  Claim C9. With the flag false (and in a build without threads) each of the three add
  macros stores the old value plus the delta in the cell and has that new value, and
  this is the result of the atomic path, which the macro takes when the flag is true.
\<close>

theorem add_fallback_same_as_atomic:
  assumes "\<not> ccs_using_threads g" and "ccs_using_threads g'"
  shows "CCS_THREAD_ADD32 True g x32 y32 mem32 =
           (mem32 x32 + y32, mem32(x32 := mem32 x32 + y32))
     \<and> CCS_THREAD_ADD32 False g x32 y32 mem32 = CCS_THREAD_ADD32 True g x32 y32 mem32
     \<and> CCS_THREAD_ADD32 True g' x32 y32 mem32 = service_atomic_add_32 x32 y32 mem32
     \<and> CCS_THREAD_ADD32 True g x32 y32 mem32 = CCS_THREAD_ADD32 True g' x32 y32 mem32
     \<and> CCS_THREAD_ADD64 True g x64 y64 mem64 =
           (mem64 x64 + y64, mem64(x64 := mem64 x64 + y64))
     \<and> CCS_THREAD_ADD64 False g x64 y64 mem64 = CCS_THREAD_ADD64 True g x64 y64 mem64
     \<and> CCS_THREAD_ADD64 True g' x64 y64 mem64 = service_atomic_add_64 x64 y64 mem64
     \<and> CCS_THREAD_ADD64 True g x64 y64 mem64 = CCS_THREAD_ADD64 True g' x64 y64 mem64
     \<and> CCS_THREAD_ADD_SIZE_T True g xs ys mems = (mems xs + ys, mems(xs := mems xs + ys))
     \<and> CCS_THREAD_ADD_SIZE_T False g xs ys mems = CCS_THREAD_ADD_SIZE_T True g xs ys mems
     \<and> CCS_THREAD_ADD_SIZE_T True g' xs ys mems = service_atomic_add_size_t xs ys mems
     \<and> CCS_THREAD_ADD_SIZE_T True g xs ys mems = CCS_THREAD_ADD_SIZE_T True g' xs ys mems"
  using assms
  by (auto simp: CCS_THREAD_ADD32_def CCS_THREAD_ADD64_def CCS_THREAD_ADD_SIZE_T_def
      add_assign_def service_atomic_add_32_def service_atomic_add_64_def
      service_atomic_add_size_t_def service_atomic_add_def Let_def fun_eq_iff)

theorem add_fallback_same_as_atomic_witness:
  "\<not> ccs_using_threads \<lparr>ccs_uses_threads = False\<rparr>
   \<and> ccs_using_threads \<lparr>ccs_uses_threads = True\<rparr>
   \<and> CCS_THREAD_ADD32 True \<lparr>ccs_uses_threads = False\<rparr> 3 5 (zero_cells(3 := - 2)) =
       (3, zero_cells(3 := 3))
   \<and> CCS_THREAD_ADD32 True \<lparr>ccs_uses_threads = True\<rparr> 3 5 (zero_cells(3 := - 2)) =
       (3, zero_cells(3 := 3))
   \<and> CCS_THREAD_ADD64 True \<lparr>ccs_uses_threads = False\<rparr> 4 (- 1) zero_cells =
       (- 1, zero_cells(4 := - 1))
   \<and> CCS_THREAD_ADD_SIZE_T True \<lparr>ccs_uses_threads = False\<rparr> 6 1
       (zero_cells(6 := (- 1 :: 64 word))) = (0, zero_cells(6 := 0))"
  using add_fallback_same_as_atomic [of "\<lparr>ccs_uses_threads = False\<rparr>"
      "\<lparr>ccs_uses_threads = True\<rparr>" 3 5 "zero_cells(3 := - 2)" 4 "- 1" zero_cells
      6 1 "zero_cells(6 := (- 1 :: 64 word))"]
  by (simp add: ccs_using_threads_def zero_cells_def service_atomic_add_32_def
      service_atomic_add_def fun_eq_iff)

end
